theory Spec2Isabelle
  imports Complex_Main
begin

section \<open>StableEvaluationAtAPoint: the numerical core of stableevaluationatapoint.h\<close>

text \<open>
  The header works on \<^verbatim>\<open>double\<close> and \<^verbatim>\<open>Eigen::Vector2d\<close>. Its arithmetic is read
  in two ways.

  \<^item> Exact arithmetic: a \<^verbatim>\<open>double\<close> is a \<^typ>\<open>real\<close> and no operation rounds
    (\<^verbatim>\<open>M_PI\<close> is \<^term>\<open>pi\<close>, \<^verbatim>\<open>std::log\<close> is \<^term>\<open>ln\<close>, \<^verbatim>\<open>std::sqrt\<close> is
    \<^term>\<open>sqrt\<close>), a \<^verbatim>\<open>Vector2d\<close> is a pair of reals. This is the reading of the
    statements made in exact arithmetic and of the evaluations of the kernel, the cutoff
    and \<^verbatim>\<open>Jstar\<close>.

  \<^item> Double precision: a \<^verbatim>\<open>double\<close> is a finite number, an infinity or NaN, and every
    operation rounds to nearest, ties to even, as IEEE 754 binary64 does. This is the
    reading of the tests that rounding decides (the normal of \<^verbatim>\<open>PDL\<close>, the threshold of
    \<^verbatim>\<open>stab_pointEval\<close>) and of the kernel where the squared norm underflows.

  A failing \<^verbatim>\<open>LF_ASSERT_MSG\<close> aborts the evaluation; it is the \<open>Inl\<close> branch of a result
  of type \<open>error + 'a\<close>.
\<close>

subsection \<open>Eigen::Vector2d, in exact arithmetic\<close>

type_synonym Vector2d = "real \<times> real"

definition vadd :: "Vector2d \<Rightarrow> Vector2d \<Rightarrow> Vector2d" where
  "vadd a b = (fst a + fst b, snd a + snd b)"

definition vsub :: "Vector2d \<Rightarrow> Vector2d \<Rightarrow> Vector2d" where
  "vsub a b = (fst a - fst b, snd a - snd b)"


definition smul :: "real \<Rightarrow> Vector2d \<Rightarrow> Vector2d" where
  "smul s a = (s * fst a, s * snd a)"

definition dot :: "Vector2d \<Rightarrow> Vector2d \<Rightarrow> real" where
  "dot a b = fst a * fst b + snd a * snd b"

definition norm_v :: "Vector2d \<Rightarrow> real" where
  "norm_v a = sqrt (dot a a)"

subsection \<open>Assertions\<close>

text \<open>
  Modelled from the spec: the macro \<^verbatim>\<open>LF_ASSERT_MSG\<close> of lf/base is not part of the
  header. The spec calls a violated assertion a fatal precondition violation after which
  the call does not return; the model returns the assertion's message as the error.
\<close>

datatype error = LF_ASSERT string

subsection \<open>The fundamental solution and its gradient, in exact arithmetic\<close>

definition G :: "Vector2d \<Rightarrow> Vector2d \<Rightarrow> error + real" where
  "G x y =
     (if x \<noteq> y
      then Inr ((- 1 / (2 * pi)) * ln (norm_v (vsub x y)))
      else Inl (LF_ASSERT ''G not defined for these coordinates!''))"

definition gradG :: "Vector2d \<Rightarrow> Vector2d \<Rightarrow> error + Vector2d" where
  "gradG x y =
     (if x \<noteq> y
      then Inr (smul (- 1 / (2 * pi * norm_v (vsub x y))) (vsub x y))
      else Inl (LF_ASSERT ''G not defined for these coordinates!''))"

subsection \<open>The mesh as the header sees it\<close>

text \<open>
  The mesh, its entities and their geometry belong to the finite-element library. The
  header reads, of an edge: the flag computed by \<^verbatim>\<open>flagEntitiesOnBoundary(mesh, 1)\<close>, the
  geometry pointer (\<open>None\<close> is \<^verbatim>\<open>nullptr\<close>), the two columns of
  \<^verbatim>\<open>lf::geometry::Corners\<close> and the number \<^verbatim>\<open>lf::geometry::Volume\<close>, the length of the
  edge; of a cell: its reference element, and the maps \<^verbatim>\<open>Global\<close> and
  \<^verbatim>\<open>IntegrationElement\<close>, which the library applies to each column of the matrix of
  reference points. These are the fields below.
\<close>

record EdgeGeometry =
  Corners :: "Vector2d \<times> Vector2d"
  Volume :: real

record Edge =
  bd_flags_edge :: bool
  EdgeGeo :: "EdgeGeometry option"

datatype RefEl = kPoint | kSegment | kTria | kQuad

record Cell =
  RefEl :: RefEl
  Global :: "Vector2d \<Rightarrow> Vector2d"
  IntegrationElement :: "Vector2d \<Rightarrow> real"

record Mesh =
  Entities0 :: "Cell list"
  Entities1 :: "Edge list"

text \<open>A quadrature rule: its reference points, each with its weight.\<close>

type_synonym QuadRule = "(Vector2d \<times> real) list"

subsection \<open>Boundary potentials, in exact arithmetic\<close>

definition midpoint :: "EdgeGeometry \<Rightarrow> Vector2d" where
  "midpoint geo =
     (let corners = Corners geo
      in (0.5 * (fst (fst corners) + fst (snd corners)),
          0.5 * (snd (fst corners) + snd (snd corners))))"

fun PSL_loop :: "Edge list \<Rightarrow> (Vector2d \<Rightarrow> real) \<Rightarrow> Vector2d \<Rightarrow> real \<Rightarrow> error + real" where
  "PSL_loop [] v x PSLval = Inr PSLval"
| "PSL_loop (e # es) v x PSLval =
     (if bd_flags_edge e then
        (case EdgeGeo e of
           None \<Rightarrow> Inl (LF_ASSERT ''Missing geometry!'')
         | Some geo \<Rightarrow>
             (case G x (midpoint geo) of
                Inl err \<Rightarrow> Inl err
              | Inr g \<Rightarrow> PSL_loop es v x (PSLval + v (midpoint geo) * g * Volume geo)))
      else PSL_loop es v x PSLval)"

definition PSL :: "Mesh \<Rightarrow> (Vector2d \<Rightarrow> real) \<Rightarrow> Vector2d \<Rightarrow> error + real" where
  "PSL mesh v x = PSL_loop (Entities1 mesh) v x 0"

text \<open>
  The normal vector \<open>n\<close> that the loop of \<^verbatim>\<open>PDL\<close> determines from the midpoint, the
  difference \<^verbatim>\<open>1.0 - midpoint(1)\<close> taken exactly; \<open>PDL_normal_d\<close> below rounds it.
\<close>

definition PDL_normal :: "Vector2d \<Rightarrow> Vector2d" where
  "PDL_normal m =
     (if fst m > snd m \<and> fst m < 1 - snd m then (0, - 1)
      else if fst m > snd m \<and> fst m > 1 - snd m then (1, 0)
      else if fst m < snd m \<and> fst m > 1 - snd m then (0, 1)
      else (- 1, 0))"

fun PDL_loop :: "Edge list \<Rightarrow> (Vector2d \<Rightarrow> real) \<Rightarrow> Vector2d \<Rightarrow> real \<Rightarrow> error + real" where
  "PDL_loop [] v x PDLval = Inr PDLval"
| "PDL_loop (e # es) v x PDLval =
     (if bd_flags_edge e then
        (case EdgeGeo e of
           None \<Rightarrow> Inl (LF_ASSERT ''Missing geometry!'')
         | Some geo \<Rightarrow>
             (let n = PDL_normal (midpoint geo)
              in case gradG x (midpoint geo) of
                   Inl err \<Rightarrow> Inl err
                 | Inr g \<Rightarrow>
                     PDL_loop es v x (PDLval + v (midpoint geo) * dot g n * Volume geo)))
      else PDL_loop es v x PDLval)"

definition PDL :: "Mesh \<Rightarrow> (Vector2d \<Rightarrow> real) \<Rightarrow> Vector2d \<Rightarrow> error + real" where
  "PDL mesh v x = PDL_loop (Entities1 mesh) v x 0"

subsection \<open>pointEval\<close>

definition u_exact :: "Vector2d \<Rightarrow> real" where
  "u_exact x = ln (norm_v (vadd x (1, 0)))"

definition gradu :: "Vector2d \<Rightarrow> Vector2d" where
  "gradu x = smul (1 / norm_v (vadd x (1, 0))) (vadd x (1, 0))"

definition dotgradu_n :: "Vector2d \<Rightarrow> real" where
  "dotgradu_n x =
     (let n = (if fst x > snd x \<and> fst x < 1 - snd x then (0, - 1)
               else if fst x > snd x \<and> fst x > 1 - snd x then (1, 0)
               else if fst x < snd x \<and> fst x > 1 - snd x then (0, 1)
               else (- 1, 0))
      in dot (gradu x) n)"

definition pointEval :: "Mesh \<Rightarrow> error + real" where
  "pointEval mesh =
     (let x = (0.3, 0.4)
      in case PSL mesh dotgradu_n x of
           Inl err \<Rightarrow> Inl err
         | Inr psl \<Rightarrow>
             (case PDL mesh u_exact x of
                Inl err \<Rightarrow> Inl err
              | Inr pdl \<Rightarrow> Inr (\<bar>u_exact x - (psl - pdl)\<bar>)))"

subsection \<open>The cutoff function\<close>

definition half :: Vector2d where
  "half = (0.5, 0.5)"

definition Psi_constant :: real where
  "Psi_constant = pi / (0.5 * sqrt 2 - 1)"

text \<open>The three assignments of the last branch of \<^verbatim>\<open>Psi\<close>, the annulus.\<close>

definition Psi_xy_annulus :: "Vector2d \<Rightarrow> real" where
  "Psi_xy_annulus y =
     cos (Psi_constant * (norm_v (vsub y half) - 0.5))
     * cos (Psi_constant * (norm_v (vsub y half) - 0.5))"

definition gradPsi_annulus :: "Vector2d \<Rightarrow> Vector2d" where
  "gradPsi_annulus y =
     smul (2 * cos (Psi_constant * (norm_v (vsub y half) - 0.5))
             * (- 1) * sin (Psi_constant * (norm_v (vsub y half) - 0.5))
             * Psi_constant * (1 / norm_v (vsub y half)))
          (vsub y half)"

definition laplPsi_annulus :: "Vector2d \<Rightarrow> real" where
  "laplPsi_annulus y =
     2 * Psi_constant * Psi_constant * (1 / (norm_v (vsub y half) * norm_v (vsub y half)))
       * dot (vsub y half) (vsub y half)
       * (sin (Psi_constant * (norm_v (vsub y half) - 0.5))
            * sin (Psi_constant * (norm_v (vsub y half) - 0.5))
          - cos (Psi_constant * (norm_v (vsub y half) - 0.5))
            * cos (Psi_constant * (norm_v (vsub y half) - 0.5)))
     - 2 * Psi_constant * (1 / norm_v (vsub y half))
       * cos (Psi_constant * (norm_v (vsub y half) - 0.5))
       * sin (Psi_constant * (norm_v (vsub y half) - 0.5))"

text \<open>
  The body of \<^verbatim>\<open>Psi\<close>: from the three parameters to the values of the local
  \<^verbatim>\<open>Psi_xy\<close> and of the parameters \<^verbatim>\<open>gradPsi\<close> and \<^verbatim>\<open>laplPsi\<close> at the
  \<^verbatim>\<open>return\<close>.
\<close>

definition Psi_body :: "Vector2d \<Rightarrow> Vector2d \<Rightarrow> real \<Rightarrow> real \<times> Vector2d \<times> real" where
  "Psi_body y gradPsi laplPsi =
     (if norm_v (vsub y half) \<le> 0.25 * sqrt 2 then (0, (0, 0), 0)
      else if norm_v (vsub y half) \<ge> 0.5 then (1, (0, 0), 0)
      else (Psi_xy_annulus y, gradPsi_annulus y, laplPsi_annulus y))"

text \<open>The value \<^verbatim>\<open>Psi\<close> returns.\<close>

definition Psi :: "Vector2d \<Rightarrow> Vector2d \<Rightarrow> real \<Rightarrow> real" where
  "Psi y gradPsi laplPsi = fst (Psi_body y gradPsi laplPsi)"

text \<open>
  A call \<^verbatim>\<open>Psi(y, gradPsi, laplPsi)\<close> as its caller sees it: the returned value and
  the caller's variables \<^verbatim>\<open>gradPsi\<close> and \<^verbatim>\<open>laplPsi\<close> after the call. The signature
  \<^verbatim>\<open>double Psi(const Eigen::Vector2d y, Eigen::Vector2d gradPsi, double laplPsi)\<close>
  takes both by value: the body assigns to its own copies, and the caller's variables
  keep what they held.
\<close>

definition Psi_call :: "Vector2d \<Rightarrow> Vector2d \<Rightarrow> real \<Rightarrow> real \<times> Vector2d \<times> real" where
  "Psi_call y gradPsi laplPsi = (Psi y gradPsi laplPsi, gradPsi, laplPsi)"

subsection \<open>Jstar\<close>

text \<open>
  The inner loop of \<^verbatim>\<open>Jstar\<close> over the quadrature points of one cell, \<open>l\<close> counting
  them. Each pass declares \<^verbatim>\<open>Eigen::Vector2d gradPsi\<close> and
  \<^verbatim>\<open>Eigen::VectorXd laplPsi(P)\<close> without initialising them; what the two hold then
  is not fixed by the program, and is the parameter \<open>mem\<close> here: \<open>mem l\<close> is the
  content of \<^verbatim>\<open>gradPsi\<close> and of \<^verbatim>\<open>laplPsi(l)\<close> at their declaration in pass \<open>l\<close>.
\<close>

fun Jstar_quad ::
  "QuadRule \<Rightarrow> Cell \<Rightarrow> (Vector2d \<Rightarrow> real) \<Rightarrow> Vector2d \<Rightarrow> (nat \<Rightarrow> Vector2d \<times> real)
     \<Rightarrow> nat \<Rightarrow> real \<Rightarrow> error + real" where
  "Jstar_quad [] cell u x mem l val = Inr val"
| "Jstar_quad ((zeta_ref, w_ref) # qr) cell u x mem l val =
     (let zeta = Global cell zeta_ref;
          gram_det = IntegrationElement cell zeta_ref;
          (r, gradPsi, laplPsi) = Psi_call zeta (fst (mem l)) (snd (mem l))
      in case gradG x zeta of
           Inl err \<Rightarrow> Inl err
         | Inr gg \<Rightarrow>
             (case G x zeta of
                Inl err \<Rightarrow> Inl err
              | Inr g \<Rightarrow>
                  Jstar_quad qr cell u x mem (Suc l)
                    (val - w_ref * u zeta * (2 * dot gg gradPsi + g * laplPsi) * gram_det)))"

text \<open>
  The loop over the cells, \<open>i\<close> counting them; \<open>mem i\<close> is the uninitialised content
  met in cell \<open>i\<close>.
\<close>

fun Jstar_cells ::
  "QuadRule \<Rightarrow> Cell list \<Rightarrow> (Vector2d \<Rightarrow> real) \<Rightarrow> Vector2d
     \<Rightarrow> (nat \<Rightarrow> nat \<Rightarrow> Vector2d \<times> real) \<Rightarrow> nat \<Rightarrow> real \<Rightarrow> error + real" where
  "Jstar_cells qr [] u x mem i val = Inr val"
| "Jstar_cells qr (entity # cells) u x mem i val =
     (if RefEl entity = kTria then
        (case Jstar_quad qr entity u x (mem i) 0 val of
           Inl err \<Rightarrow> Inl err
         | Inr val' \<Rightarrow> Jstar_cells qr cells u x mem (Suc i) val')
      else Inl (LF_ASSERT ''Not on triangular mesh!''))"

text \<open>
  \<^verbatim>\<open>Jstar\<close> reads of its finite-element space the mesh only. The quadrature rule
  \<^verbatim>\<open>lf::quad::make_TriaQR_MidpointRule()\<close> is the library's and is the parameter \<open>qr\<close>.
\<close>

definition Jstar ::
  "QuadRule \<Rightarrow> Mesh \<Rightarrow> (Vector2d \<Rightarrow> real) \<Rightarrow> Vector2d
     \<Rightarrow> (nat \<Rightarrow> nat \<Rightarrow> Vector2d \<times> real) \<Rightarrow> error + real" where
  "Jstar qr mesh u x mem = Jstar_cells qr (Entities0 mesh) u x mem 0 0"

section \<open>Double precision\<close>

subsection \<open>Rounding to binary64\<close>

text \<open>
  A binary64 number has a significand of 53 bits and an exponent from \<open>-1022\<close> to
  \<open>1023\<close>; below \<open>2 powr (- 1022)\<close> the numbers are the multiples of \<open>2 powr (- 1074)\<close>. \<open>exp64 r\<close> is
  the exponent of the binade of \<open>r\<close>, \<open>ulp64 r\<close> the distance between neighbouring
  numbers there, and \<open>fl64 r\<close> the multiple of \<open>ulp64 r\<close> nearest to \<open>r\<close>, the even
  multiple when \<open>r\<close> lies halfway. \<open>fl64\<close> knows no largest exponent; \<open>d_round\<close> below adds
  the overflow.
\<close>

definition exp64 :: "real \<Rightarrow> int" where
  "exp64 r = max (- 1022) \<lfloor>log 2 \<bar>r\<bar>\<rfloor>"

definition ulp64 :: "real \<Rightarrow> real" where
  "ulp64 r = 2 powr of_int (exp64 r - 52)"

definition round_ties_even :: "real \<Rightarrow> int" where
  "round_ties_even q =
     (let n = \<lfloor>q\<rfloor>; f = q - of_int n
      in if f < 1 / 2 then n else if 1 / 2 < f then n + 1 else if even n then n else n + 1)"

definition fl64 :: "real \<Rightarrow> real" where
  "fl64 r = sgn r * (of_int (round_ties_even (\<bar>r\<bar> / ulp64 r)) * ulp64 r)"

subsection \<open>The type double and its operations\<close>

text \<open>
  The two zeros of binary64 are not told apart: comparisons do not see the sign of a
  zero, and the one divisor of the header that can be zero, \<^verbatim>\<open>2*M_PI*(x-y).norm()\<close>, is
  never \<open>-0.0\<close>; a zero divisor is taken as \<open>+0.0\<close>. A result whose rounded magnitude
  reaches \<open>2 ^ 1024\<close> is an infinity.
\<close>

datatype double = Finite real | PInf | NInf | NaN

definition d_round :: "real \<Rightarrow> double" where
  "d_round r =
     (if 2 ^ 1024 \<le> fl64 r then PInf
      else if fl64 r \<le> - (2 ^ 1024) then NInf
      else Finite (fl64 r))"

fun d_neg :: "double \<Rightarrow> double" where
  "d_neg (Finite x) = Finite (- x)"
| "d_neg PInf = NInf"
| "d_neg NInf = PInf"
| "d_neg NaN = NaN"

fun d_add :: "double \<Rightarrow> double \<Rightarrow> double" where
  "d_add NaN b = NaN"
| "d_add a NaN = NaN"
| "d_add (Finite x) (Finite y) = d_round (x + y)"
| "d_add PInf NInf = NaN"
| "d_add NInf PInf = NaN"
| "d_add PInf b = PInf"
| "d_add NInf b = NInf"
| "d_add a b = b"

definition d_sub :: "double \<Rightarrow> double \<Rightarrow> double" where
  "d_sub a b = d_add a (d_neg b)"

fun d_mul :: "double \<Rightarrow> double \<Rightarrow> double" where
  "d_mul NaN b = NaN"
| "d_mul a NaN = NaN"
| "d_mul (Finite x) (Finite y) = d_round (x * y)"
| "d_mul (Finite x) b = (if x = 0 then NaN else if 0 < x then b else d_neg b)"
| "d_mul a (Finite y) = (if y = 0 then NaN else if 0 < y then a else d_neg a)"
| "d_mul PInf b = b"
| "d_mul NInf b = d_neg b"


fun d_sqrt :: "double \<Rightarrow> double" where
  "d_sqrt (Finite x) = (if x < 0 then NaN else d_round (sqrt x))"
| "d_sqrt PInf = PInf"
| "d_sqrt NInf = NaN"
| "d_sqrt NaN = NaN"


text \<open>The comparisons \<^verbatim>\<open><\<close>, \<^verbatim>\<open><=\<close> and \<^verbatim>\<open>==\<close>: false whenever an operand is NaN.\<close>

fun d_lt :: "double \<Rightarrow> double \<Rightarrow> bool" where
  "d_lt NaN b = False"
| "d_lt a NaN = False"
| "d_lt (Finite x) (Finite y) = (x < y)"
| "d_lt a NInf = False"
| "d_lt PInf b = False"
| "d_lt a b = True"

fun d_le :: "double \<Rightarrow> double \<Rightarrow> bool" where
  "d_le NaN b = False"
| "d_le a NaN = False"
| "d_le (Finite x) (Finite y) = (x \<le> y)"
| "d_le NInf b = True"
| "d_le a PInf = True"
| "d_le a b = False"

fun d_eq :: "double \<Rightarrow> double \<Rightarrow> bool" where
  "d_eq NaN b = False"
| "d_eq a NaN = False"
| "d_eq a b = (a = b)"

subsection \<open>Eigen::Vector2d, in double precision\<close>

text \<open>
  \<^verbatim>\<open>norm()\<close> is the square root of \<^verbatim>\<open>squaredNorm()\<close>, the sum of the two rounded
  squares. \<^verbatim>\<open>x != y\<close> holds when some pair of coefficients compares unequal, that is
  when not all pairs compare equal.
\<close>

type_synonym dvec = "double \<times> double"

definition to_dvec :: "Vector2d \<Rightarrow> dvec" where
  "to_dvec a = (Finite (fst a), Finite (snd a))"

definition vsub_d :: "dvec \<Rightarrow> dvec \<Rightarrow> dvec" where
  "vsub_d a b = (d_sub (fst a) (fst b), d_sub (snd a) (snd b))"



definition squaredNorm_d :: "dvec \<Rightarrow> double" where
  "squaredNorm_d a = d_add (d_mul (fst a) (fst a)) (d_mul (snd a) (snd a))"

definition norm_d :: "dvec \<Rightarrow> double" where
  "norm_d a = d_sqrt (squaredNorm_d a)"



subsection \<open>The kernel in double precision\<close>





subsection \<open>The normal of PDL in double precision\<close>


definition PDL_normal_d :: "dvec \<Rightarrow> Vector2d" where
  "PDL_normal_d m =
     (if d_lt (snd m) (fst m) \<and> d_lt (fst m) (d_sub (Finite 1) (snd m)) then (0, - 1)
      else if d_lt (snd m) (fst m) \<and> d_lt (d_sub (Finite 1) (snd m)) (fst m) then (1, 0)
      else if d_lt (fst m) (snd m) \<and> d_lt (d_sub (Finite 1) (snd m)) (fst m) then (0, 1)
      else (- 1, 0))"

subsection \<open>stab_pointEval\<close>

text \<open>
  \<^verbatim>\<open>stab_pointEval\<close>: the result, and the lines written to \<^verbatim>\<open>std::cerr\<close>. The test
  \<^verbatim>\<open>(x - half).norm() <= 0.25\<close> is the test on doubles, the difference, the squares,
  their sum and the square root rounded; \<open>x\<close> has finite coefficients. What
  \<^verbatim>\<open>Jstar\<close> returns is passed on as it is.
\<close>

definition stab_pointEval ::
  "QuadRule \<Rightarrow> Mesh \<Rightarrow> (Vector2d \<Rightarrow> real) \<Rightarrow> Vector2d
     \<Rightarrow> (nat \<Rightarrow> nat \<Rightarrow> Vector2d \<times> real) \<Rightarrow> (error + real) \<times> string list" where
  "stab_pointEval qr mesh u x mem =
     (if d_le (norm_d (vsub_d (to_dvec x) (to_dvec half))) (Finite 0.25)
      then (Jstar qr mesh u x mem, [])
      else (Inr 0, [''The point does not fulfill the assumptions'']))"

section \<open>Formulas of the specification and example data\<close>

subsection \<open>The specification's formulas\<close>

text \<open>
  The gradient of the fundamental solution as the specification writes it,
  \<open>-(1/(2\<pi>\<parallel>x-y\<parallel>\<^sup>2))\<cdot>(x-y)\<close>, to be compared with \<^term>\<open>gradG\<close>.
\<close>

definition gradG_spec :: "Vector2d \<Rightarrow> Vector2d \<Rightarrow> Vector2d" where
  "gradG_spec x y = smul (- (1 / (2 * pi * (norm_v (vsub x y))\<^sup>2))) (vsub x y)"

text \<open>
  The sum the specification gives for \<^verbatim>\<open>Jstar\<close>: over the cells and their quadrature
  points, minus weight times Jacobian times \<open>u(point)\<close> times the bracket, the gradient
  and the Laplacian of the cutoff being those that the body of \<^verbatim>\<open>Psi\<close> computes at the
  point. To be compared with \<^term>\<open>Jstar\<close>.
\<close>

definition Jstar_spec_cell ::
  "QuadRule \<Rightarrow> (Vector2d \<Rightarrow> real) \<Rightarrow> Vector2d \<Rightarrow> Cell \<Rightarrow> real" where
  "Jstar_spec_cell qr u x cell =
     (\<Sum>(zeta_ref, weight)\<leftarrow>qr.
        (let point = Global cell zeta_ref;
             Jacobian = IntegrationElement cell zeta_ref;
             (val, gradPsi, laplPsi) = Psi_body point (0, 0) 0
         in - (weight * Jacobian * u point
               * (2 * dot (projr (gradG x point)) gradPsi + projr (G x point) * laplPsi))))"

definition Jstar_spec :: "QuadRule \<Rightarrow> Mesh \<Rightarrow> (Vector2d \<Rightarrow> real) \<Rightarrow> Vector2d \<Rightarrow> real" where
  "Jstar_spec qr mesh u x = (\<Sum>cell\<leftarrow>Entities0 mesh. Jstar_spec_cell qr u x cell)"

text \<open>
  The contribution of one boundary edge to \<^verbatim>\<open>PSL\<close> and to \<^verbatim>\<open>PDL\<close>, and the
  condition under which no assertion of the two loops fails: every boundary edge has a
  geometry, and \<open>x\<close> is the midpoint of none.
\<close>

definition PSL_term :: "(Vector2d \<Rightarrow> real) \<Rightarrow> Vector2d \<Rightarrow> Edge \<Rightarrow> real" where
  "PSL_term v x e =
     (let geo = the (EdgeGeo e)
      in v (midpoint geo) * projr (G x (midpoint geo)) * Volume geo)"

definition PDL_term :: "(Vector2d \<Rightarrow> real) \<Rightarrow> Vector2d \<Rightarrow> Edge \<Rightarrow> real" where
  "PDL_term v x e =
     (let geo = the (EdgeGeo e)
      in v (midpoint geo) * dot (projr (gradG x (midpoint geo))) (PDL_normal (midpoint geo))
           * Volume geo)"

definition edges_ok :: "Edge list \<Rightarrow> Vector2d \<Rightarrow> bool" where
  "edges_ok es x =
     (\<forall>e \<in> set es. bd_flags_edge e \<longrightarrow> (\<exists>geo. EdgeGeo e = Some geo \<and> x \<noteq> midpoint geo))"

text \<open>
  What one quadrature point of one cell contributes to the sum that \<^verbatim>\<open>Jstar\<close>
  subtracts, when \<^verbatim>\<open>gradPsi\<close> and \<^verbatim>\<open>laplPsi(l)\<close> hold \<open>content\<close>; and the condition
  under which no assertion of \<^verbatim>\<open>Jstar\<close> fails: every cell is a triangle and \<open>x\<close> is
  none of the quadrature points.
\<close>

definition Jstar_term ::
  "(Vector2d \<Rightarrow> real) \<Rightarrow> Vector2d \<Rightarrow> Vector2d \<times> real \<Rightarrow> Cell \<Rightarrow> Vector2d \<times> real \<Rightarrow> real" where
  "Jstar_term u x content cell p =
     (let zeta = Global cell (fst p)
      in snd p * u zeta
         * (2 * dot (projr (gradG x zeta)) (fst content) + projr (G x zeta) * snd content)
         * IntegrationElement cell (fst p))"

definition cells_ok :: "QuadRule \<Rightarrow> Cell list \<Rightarrow> Vector2d \<Rightarrow> bool" where
  "cells_ok qr cells x =
     (\<forall>c \<in> set cells. RefEl c = kTria \<and> (\<forall>p \<in> set qr. x \<noteq> Global c (fst p)))"

subsection \<open>A mesh of the unit square\<close>

text \<open>
  The unit square cut along the diagonal from \<open>(0,0)\<close> to \<open>(1,1)\<close>: two triangles,
  given by their affine maps from the reference triangle, four boundary edges and the
  diagonal. With it the one-point rule at the centroid of the reference triangle, two
  functions \<open>u\<close>, and two contents of uninitialised memory.
\<close>

definition unit_square_edges :: "Edge list" where
  "unit_square_edges =
     [\<lparr>bd_flags_edge = True, EdgeGeo = Some \<lparr>Corners = ((0, 0), (1, 0)), Volume = 1\<rparr>\<rparr>,
      \<lparr>bd_flags_edge = True, EdgeGeo = Some \<lparr>Corners = ((1, 0), (1, 1)), Volume = 1\<rparr>\<rparr>,
      \<lparr>bd_flags_edge = True, EdgeGeo = Some \<lparr>Corners = ((1, 1), (0, 1)), Volume = 1\<rparr>\<rparr>,
      \<lparr>bd_flags_edge = True, EdgeGeo = Some \<lparr>Corners = ((0, 1), (0, 0)), Volume = 1\<rparr>\<rparr>,
      \<lparr>bd_flags_edge = False, EdgeGeo = Some \<lparr>Corners = ((0, 0), (1, 1)), Volume = sqrt 2\<rparr>\<rparr>]"

definition unit_square_cells :: "Cell list" where
  "unit_square_cells =
     [\<lparr>RefEl = kTria, Global = (\<lambda>p. (fst p + snd p, snd p)), IntegrationElement = (\<lambda>p. 1)\<rparr>,
      \<lparr>RefEl = kTria, Global = (\<lambda>p. (fst p, fst p + snd p)), IntegrationElement = (\<lambda>p. 1)\<rparr>]"

definition unit_square_mesh :: Mesh where
  "unit_square_mesh = \<lparr>Entities0 = unit_square_cells, Entities1 = unit_square_edges\<rparr>"

definition qr_midpoint :: QuadRule where
  "qr_midpoint = [((1 / 3, 1 / 3), 1 / 2)]"


definition u_one :: "Vector2d \<Rightarrow> real" where
  "u_one y = 1"

definition mem_zero :: "nat \<Rightarrow> nat \<Rightarrow> Vector2d \<times> real" where
  "mem_zero i l = ((0, 0), 0)"

definition mem_one :: "nat \<Rightarrow> nat \<Rightarrow> Vector2d \<times> real" where
  "mem_one i l = ((0, 0), 1)"

subsection \<open>Inputs at which rounding shows\<close>




section \<open>Properties\<close>

subsection \<open>Rounding to binary64\<close>

text \<open>
  How \<open>fl64\<close> is evaluated: the exponent from the binade, the rounding from the
  fraction that is cut off; and the bounds of a rounded number in the normal range.
\<close>

lemma exp64_normal:
  assumes "2 powr of_int e \<le> \<bar>r\<bar>" and "\<bar>r\<bar> < 2 powr of_int (e + 1)" and "- 1022 \<le> e"
  shows "exp64 r = e"
proof -
  have pos: "0 < \<bar>r\<bar>"
    using assms(1) by (rule less_le_trans [rotated]) simp
  have "of_int e \<le> log 2 \<bar>r\<bar>"
    using assms(1) pos by (simp add: le_log_iff)
  moreover have "log 2 \<bar>r\<bar> < of_int e + 1"
    using assms(2) pos by (simp add: log_less_iff)
  ultimately have "\<lfloor>log 2 \<bar>r\<bar>\<rfloor> = e"
    by (rule floor_unique)
  with assms(3) show ?thesis
    by (simp add: exp64_def)
qed


lemma round_ties_even_down:
  assumes "0 \<le> f" and "f < 1 / 2"
  shows "round_ties_even (of_int n + f) = n"
proof -
  have "\<lfloor>of_int n + f\<rfloor> = n"
    using assms by (intro floor_unique) simp_all
  then show ?thesis
    using assms by (simp add: round_ties_even_def)
qed



lemma fl64_down:
  assumes "exp64 r = e" and "\<bar>r\<bar> = (of_int n + f) * 2 powr of_int (e - 52)"
    and "0 \<le> f" and "f < 1 / 2"
  shows "fl64 r = sgn r * (of_int n * 2 powr of_int (e - 52))"
proof -
  have "\<bar>r\<bar> / ulp64 r = of_int n + f"
    by (simp add: ulp64_def assms(1,2))
  then show ?thesis
    by (simp add: fl64_def round_ties_even_down [OF assms(3,4)] ulp64_def assms(1))
qed




lemma two_powr_le_one: "a \<le> 0 \<Longrightarrow> (2 :: real) powr a \<le> 1"
  using powr_mono [of a 0 2] by simp

lemma d_round_finite: "\<bar>fl64 r\<bar> < 2 ^ 1024 \<Longrightarrow> d_round r = Finite (fl64 r)"
  by (simp add: d_round_def abs_less_iff)


lemma fl64_power_of_two:
  assumes "- 1022 \<le> n"
  shows "fl64 (2 powr of_int n) = 2 powr of_int n"
proof -
  let ?r = "(2 :: real) powr of_int n"
  have e: "exp64 ?r = n"
    by (rule exp64_normal) (simp_all add: assms)
  have "?r = 2 powr (52 + of_int (n - 52))"
    by simp
  also have "\<dots> = 2 powr 52 * 2 powr of_int (n - 52)"
    by (rule powr_add)
  finally have "\<bar>?r\<bar> = (of_int (2 ^ 52) + 0) * 2 powr of_int (n - 52)"
    by simp
  from fl64_down [OF e this] have "fl64 ?r = sgn ?r * (of_int (2 ^ 52) * 2 powr of_int (n - 52))"
    by simp
  also have "\<dots> = 2 powr 52 * 2 powr of_int (n - 52)"
    by simp
  also have "\<dots> = 2 powr (52 + of_int (n - 52))"
    by (rule powr_add [symmetric])
  finally show ?thesis
    by simp
qed

lemma fl64_minus: "fl64 (- r) = - fl64 r"
  by (simp add: fl64_def ulp64_def exp64_def sgn_minus)

lemma d_round_power_of_two:
  assumes "- 1022 \<le> n" and "n \<le> 0"
  shows "d_round (2 powr of_int n) = Finite (2 powr of_int n)"
    and "d_round (- (2 powr of_int n)) = Finite (- (2 powr of_int n))"
proof -
  have "(2 :: real) powr of_int n \<le> 1"
    using assms(2) by (simp add: two_powr_le_one)
  moreover have "(1 :: real) < 2 ^ 1024" by simp
  ultimately have b: "\<bar>(2 :: real) powr of_int n\<bar> < 2 ^ 1024"
    by simp
  show "d_round (2 powr of_int n) = Finite (2 powr of_int n)"
    using b by (simp add: d_round_finite fl64_power_of_two [OF assms(1)])
  show "d_round (- (2 powr of_int n)) = Finite (- (2 powr of_int n))"
    using b by (simp add: d_round_finite fl64_minus fl64_power_of_two [OF assms(1)])
qed




lemma tiny_le_one: "(2 :: real) powr (- 1022) \<le> 1"
  by (rule two_powr_le_one) simp


lemma d_round_dyadic:
  "d_round 2 = Finite 2"
  "d_round 1 = Finite 1"
  "d_round (1 / 2) = Finite (1 / 2)"
  "d_round (1 / 4) = Finite (1 / 4)"
  "d_round (1 / 16) = Finite (1 / 16)"
  using d_round_power_of_two(1) [of 0] d_round_power_of_two(1) [of "- 1"]
    d_round_power_of_two(1) [of "- 2"] d_round_power_of_two(1) [of "- 4"]
    fl64_power_of_two [of 1]
  by (simp_all add: powr_minus d_round_finite)


lemma d_round_small_powers:
  "d_round (2 powr (- 59)) = Finite (2 powr (- 59))"
  "d_round (2 powr (- 60)) = Finite (2 powr (- 60))"
  "d_round (2 powr (- 30)) = Finite (2 powr (- 30))"
  using d_round_power_of_two(1) [of "- 59"] d_round_power_of_two(1) [of "- 60"]
    d_round_power_of_two(1) [of "- 30"]
  by simp_all


subsection \<open>The kernel in exact arithmetic\<close>




subsection \<open>The kernel in double precision\<close>













subsection \<open>The gradient of the kernel\<close>

lemma G_on_axis: "0 < t \<Longrightarrow> projr (G (t, 0) (0, 0)) = (- 1 / (2 * pi)) * ln t"
  by (simp add: G_def norm_v_def dot_def vsub_def)

lemma G_axis_derivative:
  "((\<lambda>t. projr (G (t, 0) (0, 0))) has_real_derivative - (1 / (4 * pi))) (at 2)"
proof -
  have d: "((\<lambda>t. (- 1 / (2 * pi)) * ln t) has_real_derivative - (1 / (4 * pi))) (at 2)"
    by (auto intro!: derivative_eq_intros)
  have "\<forall>\<^sub>F t in nhds (2 :: real). 0 < t"
    unfolding eventually_nhds by (rule exI [of _ "{0<..}"]) simp
  then have e: "\<forall>\<^sub>F t in nhds 2. projr (G (t, 0) (0, 0)) = (- 1 / (2 * pi)) * ln t"
    by (rule eventually_mono) (simp add: G_on_axis)
  show ?thesis
    using d DERIV_cong_ev [OF refl e refl] by simp
qed

text \<open>
  Claim C1. The claim is that \<^verbatim>\<open>gradG(x, y)\<close> returns \<open>-(1/(2\<pi>\<parallel>x-y\<parallel>\<^sup>2))\<cdot>(x-y)\<close>,
  the gradient of \<open>G\<close> with respect to \<open>x\<close>. The code divides by the norm, not by its
  square: at \<open>x = (2,0)\<close>, \<open>y = (0,0)\<close> it returns \<open>(-1/(2\<pi>), 0)\<close>, where the
  specification's formula gives \<open>(-1/(4\<pi>), 0)\<close>, and the latter is the derivative of
  \<open>G((t,0), y)\<close> in \<open>t\<close> at \<open>t = 2\<close>.
\<close>

theorem gradG_divides_by_norm_once:
  "gradG (2, 0) (0, 0) = Inr (- (1 / (2 * pi)), 0)
   \<and> gradG_spec (2, 0) (0, 0) = (- (1 / (4 * pi)), 0)
   \<and> ((\<lambda>t. projr (G (t, 0) (0, 0))) has_real_derivative fst (gradG_spec (2, 0) (0, 0))) (at 2)"
proof -
  have s: "gradG_spec (2, 0) (0, 0) = (- (1 / (4 * pi)), 0)"
    by (simp add: gradG_spec_def norm_v_def dot_def vsub_def smul_def)
  have c: "gradG (2, 0) (0, 0) = Inr (- (1 / (2 * pi)), 0)"
    by (simp add: gradG_def norm_v_def dot_def vsub_def smul_def)
  show ?thesis
    unfolding s using c G_axis_derivative by simp
qed



subsection \<open>The boundary potentials\<close>

lemma edges_ok_Cons:
  "edges_ok (e # es) x \<longleftrightarrow>
     (bd_flags_edge e \<longrightarrow> (\<exists>geo. EdgeGeo e = Some geo \<and> x \<noteq> midpoint geo)) \<and> edges_ok es x"
  by (simp add: edges_ok_def)

lemma PSL_loop_sum:
  "edges_ok es x \<Longrightarrow>
     PSL_loop es v x acc = Inr (acc + (\<Sum>e\<leftarrow>filter bd_flags_edge es. PSL_term v x e))"
proof (induction es arbitrary: acc)
  case Nil
  show ?case by simp
next
  case (Cons e es)
  from Cons.prems have ok: "edges_ok es x" by (simp add: edges_ok_Cons)
  show ?case
  proof (cases "bd_flags_edge e")
    case False
    with Cons.IH [OF ok] show ?thesis by simp
  next
    case True
    with Cons.prems obtain geo where geo: "EdgeGeo e = Some geo" "x \<noteq> midpoint geo"
      by (auto simp add: edges_ok_Cons)
    show ?thesis
      using True geo(1) Cons.IH [OF ok]
      by (simp add: PSL_term_def Let_def G_def geo(2) add.assoc)
  qed
qed

lemma PDL_loop_sum:
  "edges_ok es x \<Longrightarrow>
     PDL_loop es v x acc = Inr (acc + (\<Sum>e\<leftarrow>filter bd_flags_edge es. PDL_term v x e))"
proof (induction es arbitrary: acc)
  case Nil
  show ?case by simp
next
  case (Cons e es)
  from Cons.prems have ok: "edges_ok es x" by (simp add: edges_ok_Cons)
  show ?case
  proof (cases "bd_flags_edge e")
    case False
    with Cons.IH [OF ok] show ?thesis by simp
  next
    case True
    with Cons.prems obtain geo where geo: "EdgeGeo e = Some geo" "x \<noteq> midpoint geo"
      by (auto simp add: edges_ok_Cons)
    show ?thesis
      using True geo(1) Cons.IH [OF ok]
      by (simp add: PDL_term_def Let_def gradG_def geo(2) add.assoc)
  qed
qed

lemma PSL_term_linear:
  "PSL_term (\<lambda>p. \<alpha> * v1 p + \<beta> * v2 p) x e = \<alpha> * PSL_term v1 x e + \<beta> * PSL_term v2 x e"
  by (simp add: PSL_term_def Let_def algebra_simps)

lemma PDL_term_linear:
  "PDL_term (\<lambda>p. \<alpha> * v1 p + \<beta> * v2 p) x e = \<alpha> * PDL_term v1 x e + \<beta> * PDL_term v2 x e"
  by (simp add: PDL_term_def Let_def algebra_simps)

lemma sum_list_linear:
  fixes f g :: "'a \<Rightarrow> real"
  shows "(\<Sum>e\<leftarrow>es. \<alpha> * f e + \<beta> * g e) = \<alpha> * (\<Sum>e\<leftarrow>es. f e) + \<beta> * (\<Sum>e\<leftarrow>es. g e)"
  by (induction es) (simp_all add: algebra_simps)

lemma unit_square_edges_ok: "edges_ok (Entities1 unit_square_mesh) (0.3, 0.4)"
  by (simp add: edges_ok_def unit_square_mesh_def unit_square_edges_def midpoint_def)

text \<open>
  Claim C9. On a mesh whose boundary edges have a geometry, for a point \<open>x\<close> that is the
  midpoint of no boundary edge, the three calls of \<^verbatim>\<open>PSL\<close> return and
  \<open>PSL(mesh, \<alpha>\<cdot>v\<^sub>1 + \<beta>\<cdot>v\<^sub>2, x) = \<alpha>\<cdot>PSL(mesh, v\<^sub>1, x) + \<beta>\<cdot>PSL(mesh, v\<^sub>2, x)\<close>; likewise
  for \<^verbatim>\<open>PDL\<close>.
\<close>

theorem PSL_PDL_linear:
  assumes "edges_ok (Entities1 mesh) x"
  shows "(\<exists>a b. PSL mesh v1 x = Inr a \<and> PSL mesh v2 x = Inr b
            \<and> PSL mesh (\<lambda>p. \<alpha> * v1 p + \<beta> * v2 p) x = Inr (\<alpha> * a + \<beta> * b))
       \<and> (\<exists>a b. PDL mesh v1 x = Inr a \<and> PDL mesh v2 x = Inr b
            \<and> PDL mesh (\<lambda>p. \<alpha> * v1 p + \<beta> * v2 p) x = Inr (\<alpha> * a + \<beta> * b))"
  by (simp add: PSL_def PDL_def PSL_loop_sum [OF assms] PDL_loop_sum [OF assms]
      PSL_term_linear PDL_term_linear sum_list_linear)

theorem PSL_PDL_linear_witness:
  "edges_ok (Entities1 unit_square_mesh) (0.3, 0.4)
   \<and> (\<exists>a b. PSL unit_square_mesh u_exact (0.3, 0.4) = Inr a
          \<and> PSL unit_square_mesh dotgradu_n (0.3, 0.4) = Inr b
          \<and> PSL unit_square_mesh (\<lambda>p. 2 * u_exact p + 3 * dotgradu_n p) (0.3, 0.4)
              = Inr (2 * a + 3 * b))
   \<and> (\<exists>a b. PDL unit_square_mesh u_exact (0.3, 0.4) = Inr a
          \<and> PDL unit_square_mesh dotgradu_n (0.3, 0.4) = Inr b
          \<and> PDL unit_square_mesh (\<lambda>p. 2 * u_exact p + 3 * dotgradu_n p) (0.3, 0.4)
              = Inr (2 * a + 3 * b))"
  using unit_square_edges_ok
    PSL_PDL_linear [OF unit_square_edges_ok, of u_exact dotgradu_n 2 3]
  by blast

subsection \<open>The normal of PDL in double precision\<close>


lemma d_eq_not_lt: "d_eq a b \<Longrightarrow> \<not> d_lt a b \<and> \<not> d_lt b a"
  by (cases a; cases b) simp_all

text \<open>
  On a tie the comparisons on doubles are false as the comparisons on reals are, and
  the normal is that of the last branch.
\<close>

lemma PDL_normal_d_tie:
  "d_eq (fst m) (snd m) \<or> d_eq (fst m) (d_sub (Finite 1) (snd m)) \<Longrightarrow>
     PDL_normal_d m = (- 1, 0)"
  by (auto simp add: PDL_normal_d_def dest: d_eq_not_lt)








text \<open>
  Claim C10. At a point on a diagonal of the unit square, the first coordinate equal to
  the second or to one minus the second, the three strict tests fail and the normal is
  \<open>(-1,0)\<close>, in \<^verbatim>\<open>PDL\<close> and in the functor \<^verbatim>\<open>dotgradu_n\<close> of \<^verbatim>\<open>pointEval\<close>.
\<close>

theorem diagonal_tie_normal:
  assumes "fst m = snd m \<or> fst m = 1 - snd m"
  shows "PDL_normal m = (- 1, 0) \<and> dotgradu_n m = dot (gradu m) (- 1, 0)"
  using assms by (auto simp add: PDL_normal_def dotgradu_n_def)

theorem diagonal_tie_normal_witness:
  "PDL_normal (0.75, 0.75) = (- 1, 0)
   \<and> dotgradu_n (0.75, 0.75) = dot (gradu (0.75, 0.75)) (- 1, 0)
   \<and> PDL_normal (0.75, 0.25) = (- 1, 0)
   \<and> dotgradu_n (0.75, 0.25) = dot (gradu (0.75, 0.25)) (- 1, 0)"
  using diagonal_tie_normal [of "(0.75, 0.75)"] diagonal_tie_normal [of "(0.75, 0.25)"]
  by simp

subsection \<open>The cutoff function\<close>

lemma cancel_half: "d \<noteq> 0 \<Longrightarrow> p / d * (d / 2) = p / (2 :: real)"
  by simp

lemma Psi_constant_inner: "Psi_constant * (0.25 * sqrt 2 - 0.5) = pi / 2"
proof -
  have nz: "0.5 * sqrt 2 - 1 \<noteq> 0"
    using sqrt2_less_2 by simp
  have e: "0.25 * sqrt 2 - 0.5 = (0.5 * sqrt 2 - 1) / 2"
    by simp
  show ?thesis
    unfolding Psi_constant_def e by (rule cancel_half [OF nz])
qed

lemma norm_v_x_axis: "0 \<le> a \<Longrightarrow> norm_v (a, 0) = a"
  by (simp add: norm_v_def dot_def)

text \<open>
  Claim C6. At \<open>r = 0.25\<surd>2\<close> the annulus formulas give the value \<open>0\<close> and the
  gradient \<open>(0,0)\<close>, which is what \<^verbatim>\<open>Psi\<close> computes there in its inner branch; at
  \<open>r = 0.5\<close> they give the value \<open>1\<close> and the gradient \<open>(0,0)\<close>, which is what
  \<^verbatim>\<open>Psi\<close> computes there in its outer branch.
\<close>

theorem Psi_C1_at_zone_boundaries:
  "(norm_v (vsub y half) = 0.25 * sqrt 2 \<longrightarrow>
      Psi_xy_annulus y = 0 \<and> gradPsi_annulus y = (0, 0)
      \<and> Psi_body y gradPsi laplPsi = (0, (0, 0), 0))
   \<and> (norm_v (vsub y half) = 0.5 \<longrightarrow>
      Psi_xy_annulus y = 1 \<and> gradPsi_annulus y = (0, 0)
      \<and> Psi_body y gradPsi laplPsi = (1, (0, 0), 0))"
proof (intro conjI impI)
  assume r: "norm_v (vsub y half) = 0.25 * sqrt 2"
  show "Psi_xy_annulus y = 0"
    unfolding Psi_xy_annulus_def r Psi_constant_inner by simp
  show "gradPsi_annulus y = (0, 0)"
    unfolding gradPsi_annulus_def r Psi_constant_inner by (simp add: smul_def)
  show "Psi_body y gradPsi laplPsi = (0, (0, 0), 0)"
    unfolding Psi_body_def r by simp
next
  assume r: "norm_v (vsub y half) = 0.5"
  have lt: "\<not> (0.5 :: real) \<le> 0.25 * sqrt 2"
    using sqrt2_less_2 by simp
  show "Psi_xy_annulus y = 1"
    unfolding Psi_xy_annulus_def r by simp
  show "gradPsi_annulus y = (0, 0)"
    unfolding gradPsi_annulus_def r by (simp add: smul_def)
  show "Psi_body y gradPsi laplPsi = (1, (0, 0), 0)"
    unfolding Psi_body_def r using lt by simp
qed

theorem Psi_C1_at_zone_boundaries_witness:
  "norm_v (vsub (0.5 + 0.25 * sqrt 2, 0.5) half) = 0.25 * sqrt 2
   \<and> Psi_xy_annulus (0.5 + 0.25 * sqrt 2, 0.5) = 0
   \<and> gradPsi_annulus (0.5 + 0.25 * sqrt 2, 0.5) = (0, 0)
   \<and> Psi_body (0.5 + 0.25 * sqrt 2, 0.5) (1, 1) 1 = (0, (0, 0), 0)
   \<and> norm_v (vsub (1, 0.5) half) = 0.5
   \<and> Psi_xy_annulus (1, 0.5) = 1
   \<and> gradPsi_annulus (1, 0.5) = (0, 0)
   \<and> Psi_body (1, 0.5) (1, 1) 1 = (1, (0, 0), 0)"
proof -
  have a: "norm_v (vsub (0.5 + 0.25 * sqrt 2, 0.5) half) = 0.25 * sqrt 2"
    by (simp add: vsub_def half_def norm_v_x_axis)
  have b: "norm_v (vsub (1, 0.5) half) = 0.5"
    by (simp add: vsub_def half_def norm_v_x_axis)
  show ?thesis
    using a b
      Psi_C1_at_zone_boundaries [of "(0.5 + 0.25 * sqrt 2, 0.5)" "(1, 1)" 1]
      Psi_C1_at_zone_boundaries [of "(1, 0.5)" "(1, 1)" 1]
    by simp
qed

text \<open>
  Claim C4. The claim is that a call of \<^verbatim>\<open>Psi\<close> delivers to its caller the gradient
  and the Laplacian of the zone of \<open>y\<close>. The parameters are passed by value: at the
  centre \<open>y = (0.5, 0.5)\<close>, in the inner zone, the body computes \<open>(0,0)\<close> and \<open>0\<close>, and
  a caller whose variables held \<open>(1,1)\<close> and \<open>1\<close> finds them unchanged after the call.
\<close>

theorem Psi_outputs_not_delivered:
  "Psi_body (0.5, 0.5) (1, 1) 1 = (0, (0, 0), 0)
   \<and> Psi_call (0.5, 0.5) (1, 1) 1 = (0, (1, 1), 1)"
  by (simp add: Psi_call_def Psi_def Psi_body_def vsub_def half_def norm_v_def dot_def)

subsection \<open>Jstar\<close>

lemma sqrt_18: "sqrt (1 / 18) = sqrt 2 / 6"
proof -
  have "sqrt (1 / 18) = sqrt (2 / 36)" by simp
  also have "\<dots> = sqrt 2 / sqrt 36" by (simp only: real_sqrt_divide)
  also have "sqrt 36 = (6 :: real)"
    using real_sqrt_abs2 [of "6 :: real"] by simp
  finally show ?thesis .
qed

lemma centroid_distances:
  "norm_v (vsub (1 / 2, 1 / 2) (2 / 3, 1 / 3)) = sqrt 2 / 6"
  "norm_v (vsub (1 / 2, 1 / 2) (1 / 3, 2 / 3)) = sqrt 2 / 6"
  "norm_v (vsub (2 / 3, 1 / 3) half) = sqrt 2 / 6"
  "norm_v (vsub (1 / 3, 2 / 3) half) = sqrt 2 / 6"
  by (simp_all add: norm_v_def dot_def vsub_def sqrt_18 half_def)

lemma ln_centroid_distance: "ln (sqrt 2 / 6) < 0"
proof -
  have "sqrt 2 / 6 < 1" using sqrt2_less_2 by simp
  moreover have "0 < sqrt 2 / 6" by simp
  ultimately show ?thesis by (simp only: ln_less_zero_iff)
qed

text \<open>
  What \<^verbatim>\<open>Jstar\<close> computes when no assertion fails and the uninitialised variables
  hold the same \<open>content\<close> in every pass: the sum has the shape the specification
  gives, with \<open>content\<close> in the place of the gradient and the Laplacian of the cutoff.
\<close>

lemma Jstar_quad_sum:
  assumes "\<forall>l. mem l = content" and "\<forall>p \<in> set qr. x \<noteq> Global cell (fst p)"
  shows "Jstar_quad qr cell u x mem l val
           = Inr (val - (\<Sum>p\<leftarrow>qr. Jstar_term u x content cell p))"
  using assms(2)
proof (induction qr arbitrary: l val)
  case Nil
  show ?case by simp
next
  case (Cons p qr)
  obtain zeta_ref w_ref where p: "p = (zeta_ref, w_ref)" by (cases p)
  from Cons.prems have ne: "x \<noteq> Global cell zeta_ref"
    and rest: "\<forall>p \<in> set qr. x \<noteq> Global cell (fst p)"
    by (simp_all add: p)
  from ne obtain gg g
    where gg: "gradG x (Global cell zeta_ref) = Inr gg"
      and g: "G x (Global cell zeta_ref) = Inr g"
    by (simp add: gradG_def G_def)
  show ?case
    using assms(1) Cons.IH [OF rest]
    by (cases content)
      (simp add: p Psi_call_def Let_def gg g Jstar_term_def algebra_simps)
qed

lemma Jstar_cells_sum:
  assumes "\<forall>i l. mem i l = content" and "cells_ok qr cells x"
  shows "Jstar_cells qr cells u x mem i val
           = Inr (val - (\<Sum>c\<leftarrow>cells. \<Sum>p\<leftarrow>qr. Jstar_term u x content c p))"
  using assms(2)
proof (induction cells arbitrary: i val)
  case Nil
  show ?case by simp
next
  case (Cons c cells)
  from Cons.prems have tria: "RefEl c = kTria"
    and ne: "\<forall>p \<in> set qr. x \<noteq> Global c (fst p)"
    and rest: "cells_ok qr cells x"
    by (simp_all add: cells_ok_def)
  from assms(1) have m: "\<forall>l. mem i l = content" by simp
  show ?case
    using tria Cons.IH [OF rest]
    by (simp add: Jstar_quad_sum [OF m ne] algebra_simps)
qed

lemma Jstar_sum:
  assumes "\<forall>i l. mem i l = content" and "cells_ok qr (Entities0 mesh) x"
  shows "Jstar qr mesh u x mem
           = Inr (- (\<Sum>c\<leftarrow>Entities0 mesh. \<Sum>p\<leftarrow>qr. Jstar_term u x content c p))"
  by (simp add: Jstar_def Jstar_cells_sum [OF assms])

lemma Jstar_not_triangular:
  "RefEl c \<noteq> kTria \<Longrightarrow>
     Jstar qr \<lparr>Entities0 = c # cells, Entities1 = es\<rparr> u x mem
       = Inl (LF_ASSERT ''Not on triangular mesh!'')"
  by (simp add: Jstar_def)

text \<open>
  Claim C3. The claim is that \<^verbatim>\<open>Jstar\<close> returns the sum of the specification, with
  the gradient and the Laplacian of the cutoff at each quadrature point. The variables
  \<^verbatim>\<open>gradPsi\<close> and \<^verbatim>\<open>laplPsi\<close> of \<^verbatim>\<open>Jstar\<close> are never written, since \<^verbatim>\<open>Psi\<close> takes
  them by value, so the sum is formed with their uninitialised content. On the mesh of
  two triangles with \<open>u = 1\<close> and \<open>x = (0.5, 0.5)\<close> both quadrature points lie in the
  inner zone and the specification's sum is \<open>0\<close>; the code returns
  \<open>ln(\<surd>2/6)/(2\<pi>)\<close>, which is negative, when the uninitialised Laplacian reads \<open>1\<close>,
  and \<open>0\<close> when it reads \<open>0\<close>.
\<close>

theorem Jstar_reads_uninitialised:
  "Jstar qr_midpoint unit_square_mesh u_one (0.5, 0.5) mem_one
     = Inr (ln (sqrt 2 / 6) / (2 * pi))
   \<and> ln (sqrt 2 / 6) / (2 * pi) < 0
   \<and> Jstar qr_midpoint unit_square_mesh u_one (0.5, 0.5) mem_zero = Inr 0
   \<and> Jstar_spec qr_midpoint unit_square_mesh u_one (0.5, 0.5) = 0"
proof -
  have one: "Jstar qr_midpoint unit_square_mesh u_one (0.5, 0.5) mem_one
               = Inr (ln (sqrt 2 / 6) / (2 * pi))"
    by (simp add: Jstar_def unit_square_mesh_def unit_square_cells_def qr_midpoint_def
        Psi_call_def gradG_def G_def centroid_distances u_one_def mem_one_def dot_def
        smul_def)
  have zero: "Jstar qr_midpoint unit_square_mesh u_one (0.5, 0.5) mem_zero = Inr 0"
    by (simp add: Jstar_def unit_square_mesh_def unit_square_cells_def qr_midpoint_def
        Psi_call_def gradG_def G_def centroid_distances u_one_def mem_zero_def dot_def
        smul_def)
  have spec: "Jstar_spec qr_midpoint unit_square_mesh u_one (0.5, 0.5) = 0"
    by (simp add: Jstar_spec_def Jstar_spec_cell_def unit_square_mesh_def
        unit_square_cells_def qr_midpoint_def Psi_body_def centroid_distances dot_def
        Let_def)
  have neg: "ln (sqrt 2 / 6) / (2 * pi) < 0"
    using ln_centroid_distance by (simp add: divide_neg_pos)
  show ?thesis
    using one zero spec neg by blast
qed

subsection \<open>stab_pointEval\<close>







lemma fl64_sixteenth_plus_tiny: "fl64 (1 / 16 + 2 powr (- 60)) = 1 / 16"
proof -
  let ?r = "1 / 16 + (2 :: real) powr (- 60)"
  have "(2 :: real) powr (- 60) < 2 powr (- 4)"
    by (rule powr_less_mono) simp_all
  moreover have s: "(2 :: real) powr (- 4) = 1 / 16"
    by (simp add: powr_minus)
  ultimately have t: "(2 :: real) powr (- 60) < 1 / 16"
    by linarith
  have p: "0 < (2 :: real) powr (- 60)" by simp
  have e: "exp64 ?r = - 4"
    by (rule exp64_normal) (use t p in \<open>simp_all add: powr_minus\<close>)
  have "(of_int (2 ^ 52) + 2 powr (- 4)) * 2 powr of_int (- 4 - 52)
          = (2 powr 52 + 2 powr (- 4)) * (2 :: real) powr (- 56)"
    by simp
  also have "\<dots> = 2 powr 52 * 2 powr (- 56) + 2 powr (- 4) * 2 powr (- 56)"
    by (rule distrib_right)
  also have "\<dots> = 2 powr (- 4) + 2 powr (- 60)"
    by (simp only: powr_add [symmetric]) simp
  finally have r: "\<bar>?r\<bar> = (of_int (2 ^ 52) + 2 powr (- 4)) * 2 powr of_int (- 4 - 52)"
    using p by (simp add: s)
  have f: "(2 :: real) powr (- 4) < 1 / 2"
    by (simp add: s)
  have pos: "0 < ?r" by (simp add: add_pos_pos)
  from fl64_down [OF e r _ f] have "fl64 ?r = sgn ?r * (2 powr 52 * 2 powr (- 56))"
    by simp
  also have "(2 :: real) powr 52 * 2 powr (- 56) = 2 powr (- 4)"
    by (simp only: powr_add [symmetric]) simp
  finally show ?thesis
    using pos by (simp add: s)
qed

lemma sqrt_sixteenth: "sqrt (1 / 16) = 1 / 4"
  by (rule real_sqrt_unique) (simp_all add: power2_eq_square)

lemma square_small: "(2 :: real) powr (- 30) * 2 powr (- 30) = 2 powr (- 60)"
  by (simp only: powr_add [symmetric]) simp

lemma near_circle_inside_d:
  "d_le (norm_d (vsub_d (to_dvec (0.75, 0.5 + 2 powr (- 30))) (to_dvec half)))
     (Finite 0.25)"
proof -
  have a: "d_round (1 / 16 + 2 powr (- 60)) = Finite (1 / 16)"
    by (simp add: d_round_finite fl64_sixteenth_plus_tiny)
  show ?thesis
    by (simp add: norm_d_def squaredNorm_d_def vsub_d_def d_sub_def to_dvec_def half_def
        d_round_dyadic d_round_small_powers square_small a sqrt_sixteenth)
qed

lemma near_circle_outside_exactly:
  "0.25 < norm_v (vsub (0.75, 0.5 + 2 powr (- 30)) half)"
proof -
  have "(1 / 4 :: real) < sqrt (1 / 16 + 2 powr (- 60))"
    by (rule real_less_rsqrt) (simp add: power2_eq_square)
  then show ?thesis
    by (simp add: norm_v_def dot_def vsub_def half_def square_small)
qed

lemma stab_pointEval_rounded_threshold:
  "0.25 < norm_v (vsub (0.75, 0.5 + 2 powr (- 30)) half)
   \<and> stab_pointEval qr mesh u (0.75, 0.5 + 2 powr (- 30)) mem
       = (Jstar qr mesh u (0.75, 0.5 + 2 powr (- 30)) mem, [])"
  using near_circle_inside_d near_circle_outside_exactly
  by (simp add: stab_pointEval_def)




end
